theory Spec2Isabelle
  imports Complex_Main "HOL-Library.Sublist"
begin

section \<open>The NOLA news monitor (monitor.js)\<close>

text \<open>
  A shallow embedding of the class \<open>NolaNewsMonitor\<close> of \<open>monitor.js\<close>. Strings are
  \<^typ>\<open>string\<close>; the embedding agrees with the source on ASCII text, where a
  character of the model is one code unit of a JavaScript string. The number type of
  JavaScript is \<^typ>\<open>int option\<close> where the source computes with whole numbers that
  may be \<open>NaN\<close> (\<open>None\<close>), and \<^typ>\<open>rat\<close> for the score, whose summands are
  multiples of one half and therefore exact in double precision.
\<close>

subsection \<open>String operations of the language\<close>

definition startsWith :: "string \<Rightarrow> string \<Rightarrow> bool" where
  "startsWith s p = prefix p s"

fun includes_str :: "string \<Rightarrow> string \<Rightarrow> bool" where
  "includes_str [] p = (p = [])"
| "includes_str (c # cs) p = (prefix p (c # cs) \<or> includes_str cs p)"

definition isDigit :: "char \<Rightarrow> bool" where
  "isDigit c = (of_char (CHR ''0'') \<le> (of_char c :: nat) \<and> (of_char c :: nat) \<le> of_char (CHR ''9''))"

definition isUpper :: "char \<Rightarrow> bool" where
  "isUpper c = (of_char (CHR ''A'') \<le> (of_char c :: nat) \<and> (of_char c :: nat) \<le> of_char (CHR ''Z''))"

definition isLower :: "char \<Rightarrow> bool" where
  "isLower c = (of_char (CHR ''a'') \<le> (of_char c :: nat) \<and> (of_char c :: nat) \<le> of_char (CHR ''z''))"

text \<open>White space and line terminators removed by \<open>String.prototype.trim\<close> (ASCII).\<close>

definition isSpace :: "char \<Rightarrow> bool" where
  "isSpace c = (c \<in> set [CHR 0x09, CHR 0x0A, CHR 0x0B, CHR 0x0C, CHR 0x0D, CHR '' ''])"

definition trim :: "string \<Rightarrow> string" where
  "trim s = rev (dropWhile isSpace (rev (dropWhile isSpace s)))"

definition toLowerCase :: "string \<Rightarrow> string" where
  "toLowerCase s = map (\<lambda>c. if isUpper c then char_of (of_char c + (32::nat)) else c) s"

text \<open>\<open>s.split(sep)\<close> for a separator of one character: never the empty list.\<close>

fun split :: "char \<Rightarrow> string \<Rightarrow> string list" where
  "split sep [] = [[]]"
| "split sep (c # cs) =
     (if c = sep then [] # split sep cs
      else (case split sep cs of [] \<Rightarrow> [[c]] | w # ws \<Rightarrow> (c # w) # ws))"

text \<open>\<open>Array.prototype.pop\<close> on a fresh array: its last element, \<open>undefined\<close> when empty.\<close>

definition pop :: "'a list \<Rightarrow> 'a option" where
  "pop xs = (if xs = [] then None else Some (last xs))"

text \<open>Decimal rendering of a non-negative whole number, as template literals do.\<close>

definition digit_char :: "nat \<Rightarrow> char" where
  "digit_char d = char_of (of_char (CHR ''0'') + d)"

fun toString :: "nat \<Rightarrow> string" where
  "toString n = (if n < 10 then [digit_char n] else toString (n div 10) @ [digit_char (n mod 10)])"

declare toString.simps [simp del]

subsection \<open>Data\<close>

record news_item =
  item_id :: string
  title :: string
  url :: string
  date :: string
  source :: string
  excerpt :: string
  timestamp :: "int option"

datatype change_type = NEW | REMOVED

record change =
  type :: change_type
  item :: news_item
  description :: string

subsection \<open>Change detection\<close>

text \<open>
  \<open>detectChanges\<close> reads the two generations of the monitor; here they are its two
  arguments, previous first. Both \<open>forEach\<close> loops push onto the same array.
\<close>

definition new_change :: "news_item \<Rightarrow> change" where
  "new_change current =
     \<lparr>type = NEW, item = current,
      description = ''New article: '' @ [CHR 0x22] @ title current @ [CHR 0x22]\<rparr>"

definition removed_change :: "news_item \<Rightarrow> change" where
  "removed_change previous =
     \<lparr>type = REMOVED, item = previous,
      description = ''Removed article: '' @ [CHR 0x22] @ title previous @ [CHR 0x22]\<rparr>"

definition some :: "('a \<Rightarrow> bool) \<Rightarrow> 'a list \<Rightarrow> bool" where
  "some p xs = list_ex p xs"

definition detectChanges :: "news_item list \<Rightarrow> news_item list \<Rightarrow> change list" where
  "detectChanges previousNews currentNews =
     (let changes = [];
          changes = fold (\<lambda>current changes.
                       let existsInPrevious = some (\<lambda>prev. item_id prev = item_id current) previousNews
                       in if \<not> existsInPrevious then changes @ [new_change current] else changes)
                     currentNews changes;
          changes = fold (\<lambda>previous changes.
                       let existsInCurrent = some (\<lambda>curr. item_id curr = item_id previous) currentNews
                       in if \<not> existsInCurrent then changes @ [removed_change previous] else changes)
                     previousNews changes
      in changes)"

subsection \<open>Relevance score\<close>

text \<open>\<open>Math.round\<close>: the nearest whole number, a tie going up.\<close>

definition Math_round :: "rat \<Rightarrow> int" where
  "Math_round x = \<lfloor>x + 1 / 2\<rfloor>"

text \<open>\<open>a < b\<close> on numbers where \<open>a\<close> may be \<open>NaN\<close>: false then.\<close>

definition less_num :: "rat option \<Rightarrow> rat \<Rightarrow> bool" where
  "less_num a b = (case a of None \<Rightarrow> False | Some x \<Rightarrow> x < b)"

record newsworthiness =
  score :: int
  level :: string

text \<open>The first argument is the reading of \<open>Date.now()\<close>.\<close>

definition calculateNewsworthiness :: "int \<Rightarrow> news_item \<Rightarrow> string list \<Rightarrow> newsworthiness" where
  "calculateNewsworthiness now it keywords =
     (let score = (1::rat);
          score = score + of_nat (length keywords) * (3 / 2);
          score = (if includes_str (source it) ''Mayor'' then score + 1 else score);
          score = (if includes_str (source it) ''City of New Orleans'' then score + 1 / 2 else score);
          title = toLowerCase (title it);
          score = (if includes_str title ''breaking'' \<or> includes_str title ''emergency''
                   then score + 2 else score);
          score = (if includes_str title ''budget'' \<or> includes_str title ''council''
                   then score + 1 else score);
          hoursOld = map_option (\<lambda>ts. of_int (now - ts) / (1000 * 60 * 60)) (timestamp it);
          score = (if less_num hoursOld 6 then score + 1
                   else if less_num hoursOld 24 then score + 1 / 2 else score);
          score = min 5 (max 1 (Math_round score));
          level = (if score \<ge> 4 then ''high'' else if score \<ge> 3 then ''medium'' else ''low'')
      in \<lparr>score = score, level = level\<rparr>)"

text \<open>The score as the specification words it: the recency bonus by the age of the
  record in milliseconds, and the sum before rounding, for \<open>k\<close> matched keywords.\<close>

definition spec_recency :: "int \<Rightarrow> news_item \<Rightarrow> rat" where
  "spec_recency now it =
     (case timestamp it of
        None \<Rightarrow> 0
      | Some ts \<Rightarrow> if now - ts < 6 * 3600000 then 1
                  else if now - ts < 24 * 3600000 then 1 / 2 else 0)"

definition spec_raw_score :: "int \<Rightarrow> news_item \<Rightarrow> nat \<Rightarrow> rat" where
  "spec_raw_score now it k =
     1 + 3 / 2 * of_nat k
     + (if includes_str (source it) ''Mayor'' then 1 else 0)
     + (if includes_str (source it) ''City of New Orleans'' then 1 / 2 else 0)
     + (if includes_str (toLowerCase (title it)) ''breaking''
           \<or> includes_str (toLowerCase (title it)) ''emergency'' then 2 else 0)
     + (if includes_str (toLowerCase (title it)) ''budget''
           \<or> includes_str (toLowerCase (title it)) ''council'' then 1 else 0)
     + spec_recency now it"

subsection \<open>The monitor and the browser state it acts on\<close>

record notification =
  heading :: string
  body :: string
  icon :: string
  tag :: string

text \<open>The three buckets of \<open>localStorage\<close>, each absent (\<open>None\<close>) or holding a value.\<close>

record snapshot =
  saved_lastCheck :: int
  saved_currentNews :: "news_item list"
  saved_previousNews :: "news_item list"

record history_entry =
  entry_timestamp :: int
  newsCount :: nat
  changesCount :: nat

record autocheck_setting =
  enabled :: bool
  interval :: "int option"

text \<open>
  The fields of the object, then the parts of the browser its methods read and write:
  the storage buckets, the repeating timers that are armed (handle and delay in
  milliseconds, in the order they were armed), the next timer handle, the notifications
  raised, the number of sounds played, and the status line as \<open>updateStatus\<close> set it
  (text and success flag). Writes to other page elements are not part of the state.
\<close>

record monitor =
  lastCheck :: "int option"
  previousNews :: "news_item list"
  currentNews :: "news_item list"
  autoCheckInterval :: "nat option"
  autoCheckEnabled :: bool
  checkIntervalMinutes :: "int option"
  notificationsEnabled :: bool
  nola_monitor_data :: "snapshot option"
  nola_monitor_history :: "history_entry list option"
  nola_monitor_autocheck :: "autocheck_setting option"
  intervals :: "(nat \<times> int option) list"
  nextHandle :: nat
  raised :: "notification list"
  sounds :: nat
  statusLine :: "(string \<times> bool) option"

subsection \<open>Scheduler\<close>

text \<open>\<open>setInterval\<close> arms a repeating timer and returns its handle; \<open>clearInterval\<close>
  disarms the timers of a handle, if any.\<close>

definition setInterval :: "int option \<Rightarrow> monitor \<Rightarrow> nat \<times> monitor" where
  "setInterval ms s =
     (nextHandle s,
      s\<lparr>intervals := intervals s @ [(nextHandle s, ms)], nextHandle := Suc (nextHandle s)\<rparr>)"

definition clearInterval :: "nat \<Rightarrow> monitor \<Rightarrow> monitor" where
  "clearInterval h s = s\<lparr>intervals := filter (\<lambda>t. fst t \<noteq> h) (intervals s)\<rparr>"

text \<open>A product of numbers, \<open>NaN\<close> when a factor is.\<close>

definition times_num :: "int option \<Rightarrow> int \<Rightarrow> int option" where
  "times_num a b = map_option (\<lambda>x. x * b) a"

definition startAutoCheck :: "monitor \<Rightarrow> monitor" where
  "startAutoCheck s =
     (let s = (case autoCheckInterval s of
                 None \<Rightarrow> s
               | Some h \<Rightarrow> if h \<noteq> 0 then clearInterval h s else s);
          intervalMs = times_num (times_num (checkIntervalMinutes s) 60) 1000;
          (h, s) = setInterval intervalMs s;
          s = s\<lparr>autoCheckInterval := Some h\<rparr>
      in s\<lparr>nola_monitor_autocheck :=
             Some \<lparr>enabled = True, interval = checkIntervalMinutes s\<rparr>\<rparr>)"

definition stopAutoCheck :: "monitor \<Rightarrow> monitor" where
  "stopAutoCheck s =
     (let s = (case autoCheckInterval s of
                 None \<Rightarrow> s
               | Some h \<Rightarrow> if h \<noteq> 0 then (clearInterval h s)\<lparr>autoCheckInterval := None\<rparr> else s)
      in s\<lparr>nola_monitor_autocheck :=
             Some \<lparr>enabled = False, interval = checkIntervalMinutes s\<rparr>\<rparr>)"

definition toggleAutoCheck :: "monitor \<Rightarrow> monitor" where
  "toggleAutoCheck s = (if autoCheckEnabled s then stopAutoCheck s else startAutoCheck s)"

text \<open>\<open>parseInt\<close> in radix ten: leading white space, a sign, then the longest run of
  digits; \<open>NaN\<close> when there is no digit. A hexadecimal prefix is not modelled.\<close>

definition digits_value :: "string \<Rightarrow> nat" where
  "digits_value ds = foldl (\<lambda>acc c. 10 * acc + (of_char c - of_char (CHR ''0''))) 0 ds"

definition parseInt :: "string \<Rightarrow> int option" where
  "parseInt str =
     (let t = dropWhile isSpace str;
          (neg, t) = (case t of
                        [] \<Rightarrow> (False, t)
                      | c # r \<Rightarrow> if c = CHR ''-'' then (True, r)
                                 else if c = CHR ''+'' then (False, r) else (False, t));
          ds = takeWhile isDigit t
      in if ds = [] then None
         else Some (if neg then - int (digits_value ds) else int (digits_value ds)))"

definition setCheckInterval :: "string \<Rightarrow> monitor \<Rightarrow> monitor" where
  "setCheckInterval minutes s =
     (let s = s\<lparr>checkIntervalMinutes := parseInt minutes\<rparr>
      in if autoCheckEnabled s then startAutoCheck (stopAutoCheck s) else s)"

subsection \<open>Storage\<close>

definition getHistory :: "monitor \<Rightarrow> history_entry list" where
  "getHistory s = (case nola_monitor_history s of None \<Rightarrow> [] | Some h \<Rightarrow> h)"

text \<open>\<open>unshift\<close> puts the entry first; \<open>splice(10)\<close> cuts the array after ten.\<close>

definition addToHistory :: "int \<Rightarrow> nat \<Rightarrow> nat \<Rightarrow> monitor \<Rightarrow> monitor" where
  "addToHistory now newsCount' changesCount' s =
     (let history = getHistory s;
          history = \<lparr>entry_timestamp = now, newsCount = newsCount',
                     changesCount = changesCount'\<rparr> # history;
          history = (if length history > 10 then take 10 history else history)
      in s\<lparr>nola_monitor_history := Some history\<rparr>)"

definition saveToStorage :: "int \<Rightarrow> monitor \<Rightarrow> monitor" where
  "saveToStorage now s =
     (let data = \<lparr>saved_lastCheck = now, saved_currentNews = currentNews s,
                  saved_previousNews = previousNews s\<rparr>
      in s\<lparr>nola_monitor_data := Some data, lastCheck := Some (saved_lastCheck data)\<rparr>)"

text \<open>\<open>x || d\<close> on a number: \<open>d\<close> when \<open>x\<close> is missing, \<open>NaN\<close> or zero.\<close>

definition or_default :: "int option \<Rightarrow> int \<Rightarrow> int" where
  "or_default x d = (case x of None \<Rightarrow> d | Some n \<Rightarrow> if n = 0 then d else n)"

definition loadFromStorage :: "monitor \<Rightarrow> monitor" where
  "loadFromStorage s =
     (let s = (case nola_monitor_data s of
                 None \<Rightarrow> s\<lparr>lastCheck := None, currentNews := [], previousNews := []\<rparr>
               | Some data \<Rightarrow>
                   s\<lparr>lastCheck := (if saved_lastCheck data = 0 then None
                                    else Some (saved_lastCheck data)),
                     currentNews := saved_currentNews data,
                     previousNews := saved_previousNews data\<rparr>)
      in case nola_monitor_autocheck s of
           None \<Rightarrow> s
         | Some autoCheckData \<Rightarrow>
             if enabled autoCheckData
             then startAutoCheck
                    (s\<lparr>checkIntervalMinutes := Some (or_default (interval autoCheckData) 15)\<rparr>)
             else s)"

text \<open>The constructor, run in a browser whose storage, timers and notifications are
  those of the argument.\<close>

definition new_monitor :: "monitor \<Rightarrow> monitor" where
  "new_monitor browser =
     loadFromStorage
       (browser\<lparr>lastCheck := None, previousNews := [], currentNews := [],
                autoCheckInterval := None, autoCheckEnabled := False,
                checkIntervalMinutes := Some 15, notificationsEnabled := False\<rparr>)"

text \<open>A browser with empty storage and no timer armed; handles start at one.\<close>

definition fresh_browser :: monitor where
  "fresh_browser =
     \<lparr>lastCheck = None, previousNews = [], currentNews = [], autoCheckInterval = None,
      autoCheckEnabled = False, checkIntervalMinutes = None, notificationsEnabled = False,
      nola_monitor_data = None, nola_monitor_history = None, nola_monitor_autocheck = None,
      intervals = [], nextHandle = 1, raised = [], sounds = 0, statusLine = None\<rparr>"

text \<open>\<open>clearHistory\<close>, with the answer of the confirmation dialogue.\<close>

definition clearHistory :: "bool \<Rightarrow> monitor \<Rightarrow> monitor" where
  "clearHistory confirmed s =
     (if confirmed
      then (let s = (if autoCheckEnabled s then stopAutoCheck s else s);
                s = s\<lparr>nola_monitor_history := None, nola_monitor_data := None,
                      nola_monitor_autocheck := None\<rparr>
            in s\<lparr>previousNews := [], currentNews := [], lastCheck := None,
                 autoCheckEnabled := False\<rparr>)
      else s)"

text \<open>Calls of the scheduler, run in sequence.\<close>

datatype scheduler_call = Start | Stop

fun scheduler_step :: "scheduler_call \<Rightarrow> monitor \<Rightarrow> monitor" where
  "scheduler_step Start s = startAutoCheck s"
| "scheduler_step Stop s = stopAutoCheck s"

definition run_calls :: "scheduler_call list \<Rightarrow> monitor \<Rightarrow> monitor" where
  "run_calls calls s = fold scheduler_step calls s"

text \<open>What the timer state is expected to be: the object holds the handle of the one
  armed timer, or holds none and no timer is armed.\<close>

definition timer_state_ok :: "monitor \<Rightarrow> bool" where
  "timer_state_ok s =
     (0 < nextHandle s \<and>
      (case autoCheckInterval s of
         None \<Rightarrow> intervals s = []
       | Some h \<Rightarrow> h \<noteq> 0 \<and> map fst (intervals s) = [h]))"

subsection \<open>Regular expressions\<close>

text \<open>
  The fragment of regular expressions that the source uses. \<open>lengths r s\<close> lists the
  lengths of the matches of \<open>r\<close> at the start of \<open>s\<close> in the order a backtracking
  matcher tries them (greedy first); its head is the match that the engine reports.
\<close>

datatype regex =
    Lit string
  | OneOf "char \<Rightarrow> bool"
  | Many1 "char \<Rightarrow> bool"
  | Between nat nat "char \<Rightarrow> bool"
  | Opt regex
  | Cat regex regex

fun lengths :: "regex \<Rightarrow> string \<Rightarrow> nat list" where
  "lengths (Lit w) s = (if prefix w s then [length w] else [])"
| "lengths (OneOf p) s = (case s of [] \<Rightarrow> [] | c # _ \<Rightarrow> if p c then [1] else [])"
| "lengths (Many1 p) s = rev [1..<Suc (length (takeWhile p s))]"
| "lengths (Between lo hi p) s = rev [lo..<Suc (min hi (length (takeWhile p s)))]"
| "lengths (Opt r) s = lengths r s @ [0]"
| "lengths (Cat r1 r2) s =
     concat (map (\<lambda>n. map (\<lambda>m. n + m) (lengths r2 (drop n s))) (lengths r1 s))"

definition re_exec :: "regex \<Rightarrow> string \<Rightarrow> nat option" where
  "re_exec r s = (case lengths r s of [] \<Rightarrow> None | n # _ \<Rightarrow> Some n)"

text \<open>\<open>s.replace(r, rep)\<close> for a global expression \<open>r\<close>: matches are replaced from left
  to right, an empty match lets one character through.\<close>

fun replace_all :: "regex \<Rightarrow> string \<Rightarrow> string \<Rightarrow> string" where
  "replace_all r rep [] = (case re_exec r [] of None \<Rightarrow> [] | Some _ \<Rightarrow> rep)"
| "replace_all r rep (c # cs) =
     (case re_exec r (c # cs) of
        None \<Rightarrow> c # replace_all r rep cs
      | Some 0 \<Rightarrow> rep @ c # replace_all r rep cs
      | Some (Suc n) \<Rightarrow> rep @ replace_all r rep (drop n cs))"

text \<open>\<open>s.match(r)\<close> for an expression that is not global: the text of the leftmost
  match, or \<open>null\<close>.\<close>

fun match_first :: "regex \<Rightarrow> string \<Rightarrow> string option" where
  "match_first r [] = (case re_exec r [] of None \<Rightarrow> None | Some _ \<Rightarrow> Some [])"
| "match_first r (c # cs) =
     (case re_exec r (c # cs) of
        None \<Rightarrow> match_first r cs
      | Some n \<Rightarrow> Some (take n (c # cs)))"

text \<open>\<open>/https?:\/\/localhost(:\d+)?/\<close>, \<open>/localhost(:\d+)?/\<close> and
  \<open>/[A-Z][a-z]+ \d{1,2}, \d{4}/\<close>.\<close>

definition re_port :: regex where
  "re_port = Opt (Cat (Lit '':'') (Many1 isDigit))"

definition re_http_localhost :: regex where
  "re_http_localhost = Cat (Lit ''http'') (Cat (Opt (Lit ''s'')) (Cat (Lit ''://localhost'') re_port))"

definition re_localhost :: regex where
  "re_localhost = Cat (Lit ''localhost'') re_port"

definition re_date :: regex where
  "re_date =
     Cat (OneOf isUpper) (Cat (Many1 isLower) (Cat (Lit '' '')
       (Cat (Between 1 2 isDigit) (Cat (Lit '', '') (Between 4 4 isDigit)))))"

subsection \<open>Extraction\<close>

text \<open>
  An anchor that the selector of \<open>parseNewsFromHTML\<close> matched, as the function reads it:
  its text, its \<open>href\<close> attribute (\<open>None\<close> when \<open>getAttribute\<close> gives \<open>null\<close>), its
  resolved \<open>href\<close> property, and the text of the nearest enclosing \<open>div\<close>, or of its
  parent when there is none.
\<close>

record link_element =
  textContent :: string
  href_attribute :: "string option"
  href :: string
  container_text :: string

text \<open>The rewriting of the link target (the chain of conditionals on \<open>url\<close>).\<close>

definition fix_url :: "string \<Rightarrow> string" where
  "fix_url u =
     (if u \<noteq> [] \<and> includes_str u ''localhost''
      then replace_all re_localhost ''nola.gov''
             (replace_all re_http_localhost ''https://nola.gov'' u)
      else if u \<noteq> [] \<and> startsWith u ''/''
      then ''https://nola.gov'' @ u
      else if u \<noteq> [] \<and> \<not> startsWith u ''http'' \<and> \<not> includes_str u ''nopdnews.com''
      then ''https://nola.gov'' @ (if startsWith u ''/'' then [] else ''/'') @ u
      else u)"

text \<open>The loopback targets of the specification: a port is empty or a colon and
  digits; a path is empty or begins with a slash, and holds no further \<open>localhost\<close>.\<close>

definition is_port :: "string \<Rightarrow> bool" where
  "is_port ps = (case ps of [] \<Rightarrow> True | c # ds \<Rightarrow> c = CHR '':'' \<and> ds \<noteq> [] \<and> list_all isDigit ds)"

definition is_path :: "string \<Rightarrow> bool" where
  "is_path p = ((case p of [] \<Rightarrow> True | c # _ \<Rightarrow> c = CHR ''/'') \<and> \<not> includes_str p ''localhost'')"

text \<open>The excerpt: after the first line equal to the title, the first line that is
  neither an attribution nor a date and is longer than 20 characters.\<close>

definition find_excerpt :: "string \<Rightarrow> string \<Rightarrow> string" where
  "find_excerpt txt ttl =
     (let lines = filter (\<lambda>line. line \<noteq> []) (map trim (split (CHR 0x0A) txt))
      in case dropWhile (\<lambda>line. line \<noteq> ttl) lines of
           [] \<Rightarrow> []
         | _ # rest \<Rightarrow>
             (case List.find (\<lambda>nextLine. nextLine \<noteq> [] \<and> \<not> includes_str nextLine ''From ''
                                \<and> match_first re_date nextLine = None
                                \<and> length nextLine > 20) rest of
                None \<Rightarrow> []
              | Some nextLine \<Rightarrow> nextLine))"

datatype js_error = Error string

text \<open>The link target that the callback selects: the attribute, or the property when the
  attribute is missing or empty.\<close>

definition select_url :: "link_element \<Rightarrow> string" where
  "select_url linkElement =
     (case href_attribute linkElement of
        None \<Rightarrow> href linkElement
      | Some a \<Rightarrow> if a \<noteq> [] then a else href linkElement)"

definition extract_date :: "string \<Rightarrow> string" where
  "extract_date txt = (case match_first re_date txt of None \<Rightarrow> [] | Some d \<Rightarrow> d)"

definition extract_source :: "string \<Rightarrow> string" where
  "extract_source txt =
     (if includes_str txt ''From NOPD News'' then ''NOPD News''
      else if includes_str txt ''From City of New Orleans'' then ''City of New Orleans''
      else ''City of New Orleans'')"

text \<open>The id: the last segment of the target, or the positional fallback when the target
  or that segment is empty.\<close>

definition make_id :: "string \<Rightarrow> nat \<Rightarrow> string" where
  "make_id u index =
     (if u \<noteq> []
      then (case pop (split (CHR ''/'') u) of
              None \<Rightarrow> ''item-'' @ toString index
            | Some seg \<Rightarrow> if seg \<noteq> [] then seg else ''item-'' @ toString index)
      else ''item-'' @ toString index)"

text \<open>
  \<open>new Date(date).getTime()\<close>. The parser of dates is a parameter: the epoch
  milliseconds, or \<open>None\<close> for an invalid date, whose time is \<open>NaN\<close>. The call never
  throws on a string.
\<close>

definition Date_getTime :: "(string \<Rightarrow> int option) \<Rightarrow> string \<Rightarrow> js_error + int option" where
  "Date_getTime dateParse d = Inr (dateParse d)"

text \<open>The timestamp: \<open>now\<close> is the reading of \<open>Date.now()\<close>; the \<open>catch\<close> block is the
  \<open>Inl\<close> branch.\<close>

definition estimate_timestamp ::
  "(string \<Rightarrow> int option) \<Rightarrow> int \<Rightarrow> nat \<Rightarrow> string \<Rightarrow> int option" where
  "estimate_timestamp dateParse now index d =
     (let timestamp = Some now
      in if d \<noteq> []
         then (case Date_getTime dateParse d of
                 Inr t \<Rightarrow> t
               | Inl e \<Rightarrow> Some (now - int index * 3600000))
         else timestamp)"

text \<open>The body of the \<open>forEach\<close> callback: the record to push, if any.\<close>

definition parse_link ::
  "(string \<Rightarrow> int option) \<Rightarrow> int \<Rightarrow> nat \<Rightarrow> link_element \<Rightarrow> news_item option" where
  "parse_link dateParse now index linkElement =
     (let title = trim (textContent linkElement);
          url = fix_url (select_url linkElement);
          txt = container_text linkElement;
          date = extract_date txt;
          source = extract_source txt;
          excerpt = find_excerpt txt title;
          id = make_id url index;
          timestamp = estimate_timestamp dateParse now index date
      in if title \<noteq> [] \<and> length title > 3
         then Some \<lparr>item_id = id, title = title,
                    url = (if url \<noteq> [] then url else ''#''),
                    date = (if date \<noteq> [] then date else ''Recent''),
                    source = source,
                    excerpt = (if excerpt \<noteq> [] then excerpt else ''No description available''),
                    timestamp = timestamp\<rparr>
         else None)"

text \<open>
  \<open>parseNewsFromHTML\<close>. The document parser with the selector is a parameter
  (\<open>querySelectorAll\<close>: the matched anchors in document order), as are the parser of
  dates and the clock (\<open>Date.now()\<close> while the anchor of an index is processed).
\<close>

definition parseNewsFromHTML ::
  "(string \<Rightarrow> link_element list) \<Rightarrow> (string \<Rightarrow> int option) \<Rightarrow> (nat \<Rightarrow> int) \<Rightarrow> string
     \<Rightarrow> news_item list" where
  "parseNewsFromHTML querySelectorAll dateParse clock html =
     (let articleElements = querySelectorAll html
      in fold (\<lambda>(index, linkElement) newsItems.
                 case parse_link dateParse (clock index) index linkElement of
                   None \<Rightarrow> newsItems
                 | Some record \<Rightarrow> newsItems @ [record])
           (enumerate 0 articleElements) [])"

subsection \<open>Fetching\<close>

text \<open>
  What the browser provides to a cycle: \<open>fetch\<close> (a rejection, or a response with its
  status and the outcome of reading its text), the document parser with the selector,
  the parser of dates, and the clock.
\<close>

record response =
  status :: nat
  body_text :: "js_error + string"

definition ok :: "response \<Rightarrow> bool" where
  "ok r = (200 \<le> status r \<and> status r \<le> 299)"

record browser_api =
  fetch :: "string \<Rightarrow> js_error + response"
  select_links :: "string \<Rightarrow> link_element list"
  parse_date :: "string \<Rightarrow> int option"
  now_at :: "nat \<Rightarrow> int"

definition message :: "js_error \<Rightarrow> string" where
  "message e = (case e of Error m \<Rightarrow> m)"

definition hex_digit :: "nat \<Rightarrow> char" where
  "hex_digit d = (if d < 10 then char_of (of_char (CHR ''0'') + d)
                  else char_of (of_char (CHR ''A'') + (d - 10)))"

text \<open>\<open>encodeURIComponent\<close> on ASCII text.\<close>

definition encodeURIComponent :: "string \<Rightarrow> string" where
  "encodeURIComponent s =
     concat (map (\<lambda>c. if isUpper c \<or> isLower c \<or> isDigit c
                            \<or> c \<in> set (''-_.!~*()'' @ [CHR 0x27])
                         then [c]
                         else [CHR ''%'', hex_digit (of_char c div 16), hex_digit (of_char c mod 16)])
               s)"

definition proxies :: "string list" where
  "proxies = [''https://corsproxy.io/?'', ''https://cors-anywhere.herokuapp.com/'',
              ''https://api.codetabs.com/v1/proxy?quest='']"

definition targetUrl :: string where
  "targetUrl = ''https://nola.gov/next/news/''"

definition proxyUrl :: "string \<Rightarrow> string" where
  "proxyUrl proxy = proxy @ encodeURIComponent targetUrl"

text \<open>The \<open>try\<close> block of one pass of the loop: the records, or what was thrown.\<close>

definition try_proxy :: "browser_api \<Rightarrow> string \<Rightarrow> js_error + news_item list" where
  "try_proxy api proxy =
     (case fetch api (proxyUrl proxy) of
        Inl e \<Rightarrow> Inl e
      | Inr response \<Rightarrow>
          if \<not> ok response then Inl (Error (''HTTP '' @ toString (status response)))
          else (case body_text response of
                  Inl e \<Rightarrow> Inl e
                | Inr html \<Rightarrow>
                    Inr (parseNewsFromHTML (select_links api) (parse_date api) (now_at api) html)))"

text \<open>
  The loop over the proxies from some index on: the requests it issues, in order, and
  its outcome. An error of the last proxy is thrown on; a loop that runs out returns
  nothing (\<open>undefined\<close>, here \<open>None\<close>).
\<close>

fun proxy_loop :: "browser_api \<Rightarrow> string list \<Rightarrow> string list \<times> (js_error + news_item list option)" where
  "proxy_loop api [] = ([], Inr None)"
| "proxy_loop api (proxy # rest) =
     (case try_proxy api proxy of
        Inr newsItems \<Rightarrow> ([proxyUrl proxy], Inr (Some newsItems))
      | Inl proxyError \<Rightarrow>
          if rest = [] then ([proxyUrl proxy], Inl proxyError)
          else (let (requests, result) = proxy_loop api rest
                in (proxyUrl proxy # requests, result)))"

definition fetchRealNewsData :: "browser_api \<Rightarrow> string list \<times> (js_error + news_item list option)" where
  "fetchRealNewsData api =
     (case proxy_loop api proxies of
        (requests, Inl error) \<Rightarrow>
          (requests,
           Inl (Error ''Unable to fetch news data. Please check your internet connection.''))
      | (requests, Inr newsItems) \<Rightarrow> (requests, Inr newsItems))"

text \<open>A relay succeeds when its response arrives with a success status and its text
  can be read; \<open>relay_body\<close> is that text.\<close>

definition relay_succeeds :: "browser_api \<Rightarrow> string \<Rightarrow> bool" where
  "relay_succeeds api proxy =
     (case fetch api (proxyUrl proxy) of
        Inl _ \<Rightarrow> False
      | Inr response \<Rightarrow> ok response \<and> (case body_text response of Inl _ \<Rightarrow> False | Inr _ \<Rightarrow> True))"

definition relay_body :: "browser_api \<Rightarrow> string \<Rightarrow> string" where
  "relay_body api proxy =
     (case fetch api (proxyUrl proxy) of
        Inl _ \<Rightarrow> []
      | Inr response \<Rightarrow> (case body_text response of Inl _ \<Rightarrow> [] | Inr html \<Rightarrow> html))"

subsection \<open>Notifications and the cycle\<close>

text \<open>The emoji that opens the title of a notification, in UTF-8.\<close>

definition classical_building :: string where
  "classical_building = [CHR 0xF0, CHR 0x9F, CHR 0x8F, CHR 0x9B, CHR 0xEF, CHR 0xB8, CHR 0x8F]"

definition playNotificationSound :: "monitor \<Rightarrow> monitor" where
  "playNotificationSound s = s\<lparr>sounds := Suc (sounds s)\<rparr>"

definition single_notification :: "news_item \<Rightarrow> notification" where
  "single_notification it =
     \<lparr>heading = classical_building @ '' New NOLA News Item'',
      body = title it @ [CHR 0x0A] @ ''From: '' @ source it,
      icon = ''/favicon.ico'', tag = ''nola-news-single''\<rparr>"

definition multiple_notification :: "nat \<Rightarrow> notification" where
  "multiple_notification n =
     \<lparr>heading = classical_building @ '' Multiple New NOLA News Items'',
      body = toString n @ '' new items detected. Check the monitor for details.'',
      icon = ''/favicon.ico'', tag = ''nola-news-multiple''\<rparr>"

definition sendNotifications :: "change list \<Rightarrow> monitor \<Rightarrow> monitor" where
  "sendNotifications changes s =
     (if \<not> notificationsEnabled s \<or> length changes = 0 then s
      else (let newItems = filter (\<lambda>change. type change = NEW) changes
            in if length newItems = 0 then s
               else (let s = (if length newItems = 1
                              then (let it = item (newItems ! 0)
                                    in s\<lparr>raised := raised s @ [single_notification it]\<rparr>)
                              else s\<lparr>raised := raised s
                                       @ [multiple_notification (length newItems)]\<rparr>)
                     in playNotificationSound s)))"

definition updateStatus :: "string \<Rightarrow> bool \<Rightarrow> monitor \<Rightarrow> monitor" where
  "updateStatus msg success s = s\<lparr>statusLine := Some (msg, success)\<rparr>"

text \<open>
  \<open>checkForUpdates\<close>, with the readings of \<open>Date.now()\<close> in \<open>saveToStorage\<close> and in
  \<open>addToHistory\<close>. Reading the length of a result that is \<open>undefined\<close> throws a
  \<open>TypeError\<close>, caught like any other error.
\<close>

definition checkForUpdates :: "browser_api \<Rightarrow> int \<Rightarrow> int \<Rightarrow> monitor \<Rightarrow> monitor" where
  "checkForUpdates api savedAt loggedAt s =
     (case snd (fetchRealNewsData api) of
        Inl error \<Rightarrow> updateStatus (''Error: '' @ message error) False s
      | Inr None \<Rightarrow>
          updateStatus (''Error: '' @ ''Cannot read properties of undefined (reading '' @ [CHR 0x27]
                          @ ''length'' @ [CHR 0x27] @ '')'') False s
      | Inr (Some freshData) \<Rightarrow>
          (let s = s\<lparr>previousNews := currentNews s\<rparr>;
               s = s\<lparr>currentNews := freshData\<rparr>;
               changes = detectChanges (previousNews s) (currentNews s);
               s = saveToStorage savedAt s;
               s = addToHistory loggedAt (length freshData) (length changes) s;
               s = (if length changes > 0 then sendNotifications changes s else s)
           in updateStatus (''Found '' @ toString (length freshData) @ '' news items, ''
                              @ toString (length changes) @ '' changes detected'') True s))"

subsection \<open>Example inputs\<close>

definition council_item :: news_item where
  "council_item =
     \<lparr>item_id = ''council-meeting'', title = ''City Council Meeting'',
      url = ''https://nola.gov/next/news/council-meeting'', date = ''August 7, 2025'',
      source = ''City of New Orleans'', excerpt = ''No description available'',
      timestamp = Some 1754524800000\<rparr>"

text \<open>A page with three matching anchors: two whose targets end in the same segment
  and have no date, the third with a date that no parser accepts.\<close>

definition example_html :: string where
  "example_html =
     ''<h3><a href=/a/x>Council</a></h3><h3><a href=/b/x>Streets</a></h3>''
     @ ''<h3><a href=/n/>Parade</a> May 45, 2025</h3>''"

definition example_links :: "link_element list" where
  "example_links =
     [\<lparr>textContent = ''Council'', href_attribute = Some ''/a/x'',
       href = ''http://localhost:8000/a/x'', container_text = ''Council''\<rparr>,
      \<lparr>textContent = ''Streets'', href_attribute = Some ''/b/x'',
       href = ''http://localhost:8000/b/x'', container_text = ''Streets''\<rparr>,
      \<lparr>textContent = ''Parade'', href_attribute = Some ''/n/'',
       href = ''http://localhost:8000/n/'', container_text = ''Parade May 45, 2025''\<rparr>]"

text \<open>A browser in which the first relay is unreachable, the second answers 403 and
  the third delivers the page; and one in which no relay can be reached.\<close>

definition example_api :: browser_api where
  "example_api =
     \<lparr>fetch = (\<lambda>u. if u = proxyUrl ''https://cors-anywhere.herokuapp.com/''
                     then Inr \<lparr>status = 403, body_text = Inr ''Forbidden''\<rparr>
                     else if u = proxyUrl ''https://api.codetabs.com/v1/proxy?quest=''
                     then Inr \<lparr>status = 200, body_text = Inr example_html\<rparr>
                     else Inl (Error ''Failed to fetch'')),
      select_links = (\<lambda>html. if html = example_html then example_links else []),
      parse_date = (\<lambda>d. if d = ''August 7, 2025'' then Some 1754524800000 else None),
      now_at = (\<lambda>index. 1754600000000)\<rparr>"

definition offline_api :: browser_api where
  "offline_api = example_api\<lparr>fetch := (\<lambda>u. Inl (Error ''Failed to fetch''))\<rparr>"

text \<open>A monitor that holds one record from an earlier cycle, with notifications
  granted.\<close>

definition example_monitor :: monitor where
  "example_monitor =
     (new_monitor fresh_browser)\<lparr>currentNews := [council_item], notificationsEnabled := True\<rparr>"

section \<open>Properties\<close>

subsection \<open>Change detection\<close>

lemma fold_push_filter:
  "fold (\<lambda>x acc. if p x then acc @ [f x] else acc) xs acc = acc @ map f (filter p xs)"
  by (induction xs arbitrary: acc) simp_all

lemma some_item_id: "some (\<lambda>y. item_id y = item_id x) ys \<longleftrightarrow> item_id x \<in> item_id ` set ys"
  by (auto simp: some_def list_ex_iff intro: rev_image_eqI)

lemma detectChanges_filter:
  "detectChanges P C =
     map new_change (filter (\<lambda>c. item_id c \<notin> item_id ` set P) C) @
     map removed_change (filter (\<lambda>p. item_id p \<notin> item_id ` set C) P)"
  by (simp add: detectChanges_def Let_def some_item_id fold_push_filter)

text \<open>
  C1: for every previous sequence \<open>P\<close> and current sequence \<open>C\<close>, \<open>detectChanges\<close>
  returns one NEW (added) event for each record of \<open>C\<close> whose id occurs in no record of
  \<open>P\<close>, in the order of \<open>C\<close>, then one REMOVED event for each record of \<open>P\<close> whose id
  occurs in no record of \<open>C\<close>, in the order of \<open>P\<close>, and nothing else. Comparing a
  sequence with itself gives no event, two empty sequences give no event, and an empty
  previous sequence gives \<open>|C|\<close> events, all of them NEW.
\<close>

theorem detectChanges_added_then_removed:
  "detectChanges P C =
     map new_change (filter (\<lambda>c. item_id c \<notin> item_id ` set P) C) @
     map removed_change (filter (\<lambda>p. item_id p \<notin> item_id ` set C) P)
   \<and> map type (map new_change xs) = replicate (length xs) NEW
   \<and> map item (map new_change xs) = xs
   \<and> map type (map removed_change xs) = replicate (length xs) REMOVED
   \<and> map item (map removed_change xs) = xs
   \<and> detectChanges P P = []
   \<and> detectChanges [] [] = []
   \<and> detectChanges [] C = map new_change C
   \<and> length (detectChanges [] C) = length C
   \<and> map type (detectChanges [] C) = replicate (length C) NEW"
proof -
  have ty_new: "map type (map new_change ys) = replicate (length ys) NEW" for ys
    by (induction ys) (simp_all add: new_change_def)
  have ty_rem: "map type (map removed_change ys) = replicate (length ys) REMOVED" for ys
    by (induction ys) (simp_all add: removed_change_def)
  have it_new: "map item (map new_change ys) = ys" for ys
    by (induction ys) (simp_all add: new_change_def)
  have it_rem: "map item (map removed_change ys) = ys" for ys
    by (induction ys) (simp_all add: removed_change_def)
  have self: "detectChanges P P = []"
    by (simp add: detectChanges_filter)
  have empty: "detectChanges [] C = map new_change C"
    by (simp add: detectChanges_filter)
  show ?thesis
    using ty_new [of xs] ty_rem [of xs] it_new [of xs] it_rem [of xs] self empty ty_new [of C]
    by (simp add: detectChanges_filter)
qed

subsection \<open>Relevance score\<close>

lemma hours_old_less:
  "less_num (map_option (\<lambda>ts. of_int (now - ts) / (1000 * 60 * 60)) t) (of_nat h) \<longleftrightarrow>
     (case t of None \<Rightarrow> False | Some ts \<Rightarrow> now - ts < int h * 3600000)"
proof (cases t)
  case None
  then show ?thesis by (simp add: less_num_def)
next
  case (Some ts)
  have "(rat_of_int (now - ts) < rat_of_nat h * 3600000) = (now - ts < int h * 3600000)"
    by (metis of_int_less_iff of_int_mult of_int_numeral of_int_of_nat_eq)
  with Some show ?thesis by (simp add: less_num_def divide_less_eq)
qed

lemma if_add_bonus: "(if c then x + a else x) = x + (if c then a else (0::rat))"
  by simp

lemma if_add_bonus2: "(if c then x + a else x + b) = x + (if c then a else (b::rat))"
  by simp

lemma recency_bonus:
  "(if less_num (map_option (\<lambda>ts. of_int (now - ts) / (1000 * 60 * 60)) (timestamp it)) 6 then 1
    else if less_num (map_option (\<lambda>ts. of_int (now - ts) / (1000 * 60 * 60)) (timestamp it)) 24
         then 1 / 2 else 0) = spec_recency now it"
  using hours_old_less [of now "timestamp it" 6] hours_old_less [of now "timestamp it" 24]
  by (simp add: spec_recency_def split: option.splits)

lemma score_spec_raw_score:
  "score (calculateNewsworthiness now it kws) =
     min 5 (max 1 (Math_round (spec_raw_score now it (length kws))))"
  unfolding calculateNewsworthiness_def if_add_bonus2 if_add_bonus Let_def recency_bonus
    spec_raw_score_def
  by (simp split del: if_split add: mult.commute)

lemma calculateNewsworthiness_shape:
  "\<exists>r. calculateNewsworthiness now it kws =
     \<lparr>score = min 5 (max 1 (Math_round r)),
      level = (if min 5 (max 1 (Math_round r)) \<ge> 4 then ''high''
               else if min 5 (max 1 (Math_round r)) \<ge> 3 then ''medium'' else ''low'')\<rparr>"
  unfolding calculateNewsworthiness_def Let_def by (rule exI) (rule refl)

lemma level_of_score:
  "level (calculateNewsworthiness now it kws) =
     (if score (calculateNewsworthiness now it kws) \<ge> 4 then ''high''
      else if score (calculateNewsworthiness now it kws) \<ge> 3 then ''medium'' else ''low'')"
proof -
  obtain r where "calculateNewsworthiness now it kws =
     \<lparr>score = min 5 (max 1 (Math_round r)),
      level = (if min 5 (max 1 (Math_round r)) \<ge> 4 then ''high''
               else if min 5 (max 1 (Math_round r)) \<ge> 3 then ''medium'' else ''low'')\<rparr>"
    using calculateNewsworthiness_shape by blast
  then show ?thesis by (simp add: max_def min_def)
qed

lemma spec_raw_score_mono: "k \<le> k' \<Longrightarrow> spec_raw_score now it k \<le> spec_raw_score now it k'"
  by (simp add: spec_raw_score_def)

lemma Math_round_mono: "x \<le> y \<Longrightarrow> Math_round x \<le> Math_round y"
  by (simp add: Math_round_def floor_mono)
text \<open>
  C8: for every record and list of \<open>k\<close> matched keywords, the score is the rounded sum
  1 + 1.5 k + the source, title and recency bonuses, clamped to the range from 1 to 5;
  the level is high exactly for a score of at least 4, medium exactly for 3 and low
  otherwise; the score is a whole number between 1 and 5, and it does not decrease when
  the number of matched keywords grows and everything else stays the same.
\<close>

theorem calculateNewsworthiness_score_level:
  "score (calculateNewsworthiness now it kws) =
     min 5 (max 1 (Math_round (spec_raw_score now it (length kws))))
   \<and> (level (calculateNewsworthiness now it kws) = ''high''
        \<longleftrightarrow> score (calculateNewsworthiness now it kws) \<ge> 4)
   \<and> (level (calculateNewsworthiness now it kws) = ''medium''
        \<longleftrightarrow> score (calculateNewsworthiness now it kws) = 3)
   \<and> (level (calculateNewsworthiness now it kws) = ''low''
        \<longleftrightarrow> score (calculateNewsworthiness now it kws) < 3)
   \<and> 1 \<le> score (calculateNewsworthiness now it kws)
   \<and> score (calculateNewsworthiness now it kws) \<le> 5
   \<and> (\<forall>kws'. length kws \<le> length kws' \<longrightarrow>
         score (calculateNewsworthiness now it kws)
           \<le> score (calculateNewsworthiness now it kws'))"
proof -
  let ?s = "score (calculateNewsworthiness now it kws)"
  have range: "1 \<le> ?s" "?s \<le> 5"
    by (simp_all add: score_spec_raw_score)
  have lv: "(level (calculateNewsworthiness now it kws) = ''high'' \<longleftrightarrow> ?s \<ge> 4)"
      "(level (calculateNewsworthiness now it kws) = ''medium'' \<longleftrightarrow> ?s = 3)"
      "(level (calculateNewsworthiness now it kws) = ''low'' \<longleftrightarrow> ?s < 3)"
    by (auto simp: level_of_score)
  have mono: "?s \<le> score (calculateNewsworthiness now it kws')"
    if "length kws \<le> length kws'" for kws'
  proof -
    have "Math_round (spec_raw_score now it (length kws))
            \<le> Math_round (spec_raw_score now it (length kws'))"
      using that by (intro Math_round_mono spec_raw_score_mono)
    then show ?thesis by (simp add: score_spec_raw_score)
  qed
  show ?thesis
    using range lv mono score_spec_raw_score [of now it kws] by blast
qed
theorem calculateNewsworthiness_score_level_witness:
  "score (calculateNewsworthiness 1754528400000 council_item []) = 4
   \<and> level (calculateNewsworthiness 1754528400000 council_item []) = ''high''
   \<and> length ([] :: string list) \<le> length [''council'']
   \<and> score (calculateNewsworthiness 1754528400000 council_item [])
       \<le> score (calculateNewsworthiness 1754528400000 council_item [''council''])"
proof -
  have raw: "spec_raw_score 1754528400000 council_item 0 = 7 / 2"
    by code_simp
  have rnd: "Math_round (7 / 2) = 4"
    by (simp add: Math_round_def)
  note t = calculateNewsworthiness_score_level [of 1754528400000 council_item "[]"]
  have le: "length ([] :: string list) \<le> length [''council'']"
    by simp
  from t have s: "score (calculateNewsworthiness 1754528400000 council_item []) =
     min 5 (max 1 (Math_round (spec_raw_score 1754528400000 council_item
       (length ([] :: string list)))))"
    by (rule conjunct1)
  have s4: "score (calculateNewsworthiness 1754528400000 council_item []) = 4"
    unfolding s by (simp add: raw rnd)
  from t have "(level (calculateNewsworthiness 1754528400000 council_item []) = ''high'')
      \<longleftrightarrow> score (calculateNewsworthiness 1754528400000 council_item []) \<ge> 4"
    by (elim conjE)
  then have lv: "level (calculateNewsworthiness 1754528400000 council_item []) = ''high''"
    by (simp add: s4)
  from t have all: "\<forall>kws'. length ([] :: string list) \<le> length kws' \<longrightarrow>
         score (calculateNewsworthiness 1754528400000 council_item [])
           \<le> score (calculateNewsworthiness 1754528400000 council_item kws')"
    by (elim conjE)
  have mono: "score (calculateNewsworthiness 1754528400000 council_item [])
       \<le> score (calculateNewsworthiness 1754528400000 council_item [''council''])"
    by (rule all [THEN spec, THEN mp, OF le])
  show ?thesis
    by (intro conjI s4 lv mono le)
qed

subsection \<open>Scheduler\<close>

lemma startAutoCheck_timer:
  "timer_state_ok s \<Longrightarrow>
     intervals (startAutoCheck s) =
       [(nextHandle s, times_num (times_num (checkIntervalMinutes s) 60) 1000)]
     \<and> autoCheckInterval (startAutoCheck s) = Some (nextHandle s)
     \<and> nextHandle (startAutoCheck s) = Suc (nextHandle s)"
  by (auto simp: timer_state_ok_def startAutoCheck_def setInterval_def clearInterval_def
      Let_def split: option.splits)

lemma stopAutoCheck_timer:
  "timer_state_ok s \<Longrightarrow>
     intervals (stopAutoCheck s) = [] \<and> autoCheckInterval (stopAutoCheck s) = None
     \<and> nextHandle (stopAutoCheck s) = nextHandle s"
  by (auto simp: timer_state_ok_def stopAutoCheck_def clearInterval_def Let_def
      split: option.splits)

lemma stopAutoCheck_stopped:
  "autoCheckInterval s = None \<Longrightarrow>
     intervals (stopAutoCheck s) = intervals s
     \<and> autoCheckInterval (stopAutoCheck s) = autoCheckInterval s
     \<and> nextHandle (stopAutoCheck s) = nextHandle s"
  by (simp add: stopAutoCheck_def)

lemma startAutoCheck_ok: "timer_state_ok s \<Longrightarrow> timer_state_ok (startAutoCheck s)"
  using startAutoCheck_timer [of s] by (simp add: timer_state_ok_def)

lemma stopAutoCheck_ok: "timer_state_ok s \<Longrightarrow> timer_state_ok (stopAutoCheck s)"
  using stopAutoCheck_timer [of s] by (simp add: timer_state_ok_def)

lemma run_calls_ok: "timer_state_ok s \<Longrightarrow> timer_state_ok (run_calls calls s)"
  unfolding run_calls_def
proof (induction calls arbitrary: s)
  case Nil
  then show ?case by simp
next
  case (Cons c calls)
  then show ?case by (cases c) (simp_all add: startAutoCheck_ok stopAutoCheck_ok)
qed

lemma timer_state_ok_at_most_one: "timer_state_ok s \<Longrightarrow> length (intervals s) \<le> 1"
proof -
  assume ok: "timer_state_ok s"
  have "length (map fst (intervals s)) \<le> 1"
    using ok by (cases "autoCheckInterval s") (simp_all add: timer_state_ok_def)
  then show ?thesis by simp
qed

lemma new_monitor_fresh_ok: "timer_state_ok (new_monitor fresh_browser)"
  by (simp add: timer_state_ok_def new_monitor_def fresh_browser_def loadFromStorage_def)

text \<open>
  C10: from a state in which the object holds the handle of the only armed timer, or
  holds none while no timer is armed (as after construction), every sequence of
  \<open>startAutoCheck\<close> and \<open>stopAutoCheck\<close> calls leaves at most one repeating timer
  armed. A further \<open>startAutoCheck\<close> leaves exactly the timer it arms, the earlier one
  being disarmed; a further \<open>stopAutoCheck\<close> leaves none; and \<open>stopAutoCheck\<close> on an
  object that holds no handle changes neither the armed timers nor the handle.
\<close>

theorem at_most_one_timer_armed:
  assumes "timer_state_ok s"
  shows "length (intervals (run_calls calls s)) \<le> 1
    \<and> timer_state_ok (run_calls calls s)
    \<and> intervals (startAutoCheck (run_calls calls s)) =
         [(nextHandle (run_calls calls s),
           times_num (times_num (checkIntervalMinutes (run_calls calls s)) 60) 1000)]
    \<and> autoCheckInterval (startAutoCheck (run_calls calls s)) = Some (nextHandle (run_calls calls s))
    \<and> intervals (stopAutoCheck (run_calls calls s)) = []
    \<and> autoCheckInterval (stopAutoCheck (run_calls calls s)) = None
    \<and> (autoCheckInterval (run_calls calls s) = None \<longrightarrow>
          intervals (stopAutoCheck (run_calls calls s)) = intervals (run_calls calls s)
          \<and> nextHandle (stopAutoCheck (run_calls calls s)) = nextHandle (run_calls calls s))"
proof -
  have ok: "timer_state_ok (run_calls calls s)"
    using assms by (rule run_calls_ok)
  show ?thesis
    using ok timer_state_ok_at_most_one [OF ok] startAutoCheck_timer [OF ok]
      stopAutoCheck_timer [OF ok] stopAutoCheck_stopped [of "run_calls calls s"]
    by blast
qed

theorem at_most_one_timer_armed_witness:
  "timer_state_ok (new_monitor fresh_browser)
   \<and> length (intervals (run_calls [Start, Start, Stop, Start] (new_monitor fresh_browser))) \<le> 1
   \<and> intervals (run_calls [Start, Start, Stop, Start] (new_monitor fresh_browser))
        = [(3, Some 900000)]
   \<and> autoCheckInterval (run_calls [Stop] (new_monitor fresh_browser)) = None
   \<and> intervals (stopAutoCheck (run_calls [Stop] (new_monitor fresh_browser)))
        = intervals (run_calls [Stop] (new_monitor fresh_browser))"
proof -
  have ok: "timer_state_ok (new_monitor fresh_browser)"
    by (rule new_monitor_fresh_ok)
  have a: "length (intervals (run_calls [Start, Start, Stop, Start] (new_monitor fresh_browser))) \<le> 1"
    using at_most_one_timer_armed [OF ok, of "[Start, Start, Stop, Start]"] by (elim conjE)
  have b: "intervals (run_calls [Start, Start, Stop, Start] (new_monitor fresh_browser))
        = [(3, Some 900000)]"
    by code_simp
  have c: "autoCheckInterval (run_calls [Stop] (new_monitor fresh_browser)) = None"
    by code_simp
  have d: "intervals (stopAutoCheck (run_calls [Stop] (new_monitor fresh_browser)))
        = intervals (run_calls [Stop] (new_monitor fresh_browser))"
    using at_most_one_timer_armed [OF ok, of "[Stop]"] c by blast
  show ?thesis
    by (intro conjI ok a b c d)
qed

lemma autoCheckEnabled_unchanged:
  "autoCheckEnabled (startAutoCheck s) = autoCheckEnabled s"
  "autoCheckEnabled (stopAutoCheck s) = autoCheckEnabled s"
  "autoCheckEnabled (toggleAutoCheck s) = autoCheckEnabled s"
  "autoCheckEnabled (setCheckInterval m s) = autoCheckEnabled s"
  by (simp_all add: startAutoCheck_def stopAutoCheck_def toggleAutoCheck_def
      setCheckInterval_def setInterval_def clearInterval_def Let_def split: option.splits)

lemma autoCheckEnabled_new_monitor: "\<not> autoCheckEnabled (new_monitor b)"
  by (simp add: new_monitor_def loadFromStorage_def autoCheckEnabled_unchanged Let_def
      split: option.splits)

lemma setCheckInterval_flag_unset:
  "\<not> autoCheckEnabled s \<Longrightarrow>
     setCheckInterval m s = s\<lparr>checkIntervalMinutes := parseInt m\<rparr>"
  by (simp add: setCheckInterval_def)

text \<open>
  C4: after construction in a fresh browser, \<open>toggleAutoCheck\<close> arms the timer with the
  default period of 15 minutes, and a later \<open>setCheckInterval\<close> with the value 5
  stores the new period but leaves that timer armed with the old delay of 900000
  milliseconds: no method sets \<open>autoCheckEnabled\<close>, so the restart is never taken.
\<close>

theorem setCheckInterval_keeps_old_timer:
  "intervals (toggleAutoCheck (new_monitor fresh_browser)) = [(1, Some 900000)]
   \<and> autoCheckInterval (toggleAutoCheck (new_monitor fresh_browser)) = Some 1
   \<and> intervals (setCheckInterval ''5'' (toggleAutoCheck (new_monitor fresh_browser)))
        = [(1, Some 900000)]
   \<and> checkIntervalMinutes (setCheckInterval ''5'' (toggleAutoCheck (new_monitor fresh_browser)))
        = Some 5
   \<and> \<not> autoCheckEnabled (toggleAutoCheck (new_monitor fresh_browser))"
  by code_simp

subsection \<open>Rewriting of link targets\<close>

lemma re_exec_localhost_None: "re_exec re_localhost s = None \<longleftrightarrow> \<not> prefix ''localhost'' s"
  by (simp add: re_exec_def re_localhost_def re_port_def split: list.splits)

lemma re_exec_localhost_Some: "re_exec re_localhost s = Some n \<Longrightarrow> 9 \<le> n"
  by (auto simp: re_exec_def re_localhost_def re_port_def split: list.splits if_splits)

lemma replace_localhost_Nil [simp]: "replace_all re_localhost rep [] = []"
proof -
  have "re_exec re_localhost [] = None"
    by (simp add: re_exec_localhost_None)
  then show ?thesis by simp
qed

lemma replace_localhost_no_match:
  "\<not> prefix ''localhost'' (c # cs) \<Longrightarrow>
     replace_all re_localhost rep (c # cs) = c # replace_all re_localhost rep cs"
  using re_exec_localhost_None [of "c # cs"] by simp

lemma replace_localhost_match:
  "prefix ''localhost'' (c # cs) \<Longrightarrow>
     \<exists>n. replace_all re_localhost rep (c # cs) = rep @ replace_all re_localhost rep (drop n cs)"
proof -
  assume "prefix ''localhost'' (c # cs)"
  then obtain n where n: "re_exec re_localhost (c # cs) = Some n"
    using re_exec_localhost_None [of "c # cs"] by auto
  then have "9 \<le> n" by (rule re_exec_localhost_Some)
  then obtain m where "n = Suc m" by (cases n) simp_all
  with n show ?thesis by auto
qed

lemma prefix_replace_localhost:
  "prefix w (replace_all re_localhost ''nola.gov'' s) \<Longrightarrow> CHR ''n'' \<notin> set w \<Longrightarrow> prefix w s"
proof (induction w arbitrary: s)
  case Nil
  then show ?case by simp
next
  case (Cons a w)
  show ?case
  proof (cases s)
    case Nil
    with Cons.prems show ?thesis by (simp del: replace_all.simps)
  next
    case (Cons c cs)
    show ?thesis
    proof (cases "prefix ''localhost'' (c # cs)")
      case True
      then obtain n where "replace_all re_localhost ''nola.gov'' (c # cs)
          = ''nola.gov'' @ replace_all re_localhost ''nola.gov'' (drop n cs)"
        using replace_localhost_match by blast
      with Cons.prems Cons show ?thesis by simp
    next
      case False
      then have "replace_all re_localhost ''nola.gov'' (c # cs)
          = c # replace_all re_localhost ''nola.gov'' cs"
        by (rule replace_localhost_no_match)
      with Cons.prems Cons Cons.IH [of cs] show ?thesis by simp
    qed
  qed
qed

lemma no_prefix_localhost_replaced:
  "\<not> prefix ''localhost'' (replace_all re_localhost ''nola.gov'' s)"
proof
  assume p: "prefix ''localhost'' (replace_all re_localhost ''nola.gov'' s)"
  then have ps: "prefix ''localhost'' s"
    by (rule prefix_replace_localhost) simp
  then obtain c cs where s: "s = c # cs" by (cases s) simp_all
  then obtain n where "replace_all re_localhost ''nola.gov'' s
      = ''nola.gov'' @ replace_all re_localhost ''nola.gov'' (drop n cs)"
    using replace_localhost_match ps by blast
  with p show False by simp
qed

lemma includes_nola_gov:
  "includes_str (''nola.gov'' @ t) ''localhost'' = includes_str t ''localhost''"
  by simp

lemma no_localhost_replaced:
  "\<not> includes_str (replace_all re_localhost ''nola.gov'' s) ''localhost''"
proof (induction "length s" arbitrary: s rule: less_induct)
  case less
  show ?case
  proof (cases s)
    case Nil
    then show ?thesis by (simp del: replace_all.simps)
  next
    case (Cons c cs)
    show ?thesis
    proof (cases "prefix ''localhost'' (c # cs)")
      case True
      then obtain n where n: "replace_all re_localhost ''nola.gov'' (c # cs)
          = ''nola.gov'' @ replace_all re_localhost ''nola.gov'' (drop n cs)"
        using replace_localhost_match by blast
      have "\<not> includes_str (replace_all re_localhost ''nola.gov'' (drop n cs)) ''localhost''"
        using less [of "drop n cs"] Cons by simp
      then show ?thesis
        unfolding Cons n includes_nola_gov .
    next
      case False
      then have eq: "replace_all re_localhost ''nola.gov'' (c # cs)
          = c # replace_all re_localhost ''nola.gov'' cs"
        by (rule replace_localhost_no_match)
      have "\<not> prefix ''localhost'' (replace_all re_localhost ''nola.gov'' (c # cs))"
        by (rule no_prefix_localhost_replaced)
      moreover have "\<not> includes_str (replace_all re_localhost ''nola.gov'' cs) ''localhost''"
        using less [of cs] Cons by simp
      ultimately show ?thesis
        unfolding Cons using eq by simp
    qed
  qed
qed
lemma includes_str_drop: "prefix p (drop k s) \<Longrightarrow> includes_str s p"
proof (induction s arbitrary: k)
  case Nil
  then show ?case by simp
next
  case (Cons c cs)
  then show ?case by (cases k) auto
qed

lemma includes_str_append: "includes_str s p \<Longrightarrow> includes_str (a @ s) p"
  by (induction a) simp_all

lemma prefix_append_drop: "prefix (a @ b) s \<longleftrightarrow> prefix a s \<and> prefix b (drop (length a) s)"
proof
  assume "prefix (a @ b) s"
  then show "prefix a s \<and> prefix b (drop (length a) s)"
    by (auto simp: prefix_def)
next
  assume h: "prefix a s \<and> prefix b (drop (length a) s)"
  then obtain t where t: "s = a @ t" by (auto simp: prefix_def)
  with h obtain t' where "t = b @ t'" by (auto simp: prefix_def)
  with t show "prefix (a @ b) s" by simp
qed

lemma prefix_literal_drop:
  "n = length a \<Longrightarrow> prefix (a @ b) s \<longleftrightarrow> prefix a s \<and> prefix b (drop n s)"
  by (simp add: prefix_append_drop)

lemma re_exec_Cat_Lit:
  "re_exec (Cat (Lit w) r) s =
     (if prefix w s then map_option (\<lambda>m. length w + m) (re_exec r (drop (length w) s))
      else None)"
  by (simp add: re_exec_def split: list.splits)

lemma re_exec_Cat_Opt_Lit:
  "re_exec (Cat (Opt (Lit w)) r) s =
     (case re_exec (Cat (Lit w) r) s of Some n \<Rightarrow> Some n | None \<Rightarrow> re_exec r s)"
  by (simp add: re_exec_def split: list.splits)

lemma re_exec_port:
  "re_exec re_port s =
     Some (if prefix '':'' s \<and> takeWhile isDigit (drop 1 s) \<noteq> []
           then Suc (length (takeWhile isDigit (drop 1 s))) else 0)"
  by (simp add: re_exec_def re_port_def upt_rec [of 1] Suc_le_eq split: list.splits)

lemma re_exec_http_localhost:
  "re_exec re_http_localhost s =
     (if prefix ''https://localhost'' s
      then map_option (\<lambda>m. 17 + m) (re_exec re_port (drop 17 s))
      else if prefix ''http://localhost'' s
      then map_option (\<lambda>m. 16 + m) (re_exec re_port (drop 16 s))
      else None)"
proof -
  have p1: "prefix ''https://localhost'' s \<longleftrightarrow>
      prefix ''http'' s \<and> prefix ''s'' (drop 4 s) \<and> prefix ''://localhost'' (drop 5 s)"
    using prefix_literal_drop [of 4 "''http''" "''s://localhost''" s]
      prefix_literal_drop [of 1 "''s''" "''://localhost''" "drop 4 s"]
    by simp
  have p2: "prefix ''http://localhost'' s \<longleftrightarrow>
      prefix ''http'' s \<and> prefix ''://localhost'' (drop 4 s)"
    using prefix_literal_drop [of 4 "''http''" "''://localhost''" s] by simp
  have p3: "\<not> prefix ''://localhost'' t" if "prefix ''s'' t" for t
    using that by (cases t) auto
  show ?thesis
    unfolding p1 p2 re_http_localhost_def re_exec_Cat_Lit re_exec_Cat_Opt_Lit re_exec_port
    using p3 [of "drop 4 s"] by (simp add: numeral_eq_Suc)
qed
lemma re_exec_http_localhost_None:
  "\<not> includes_str s ''localhost'' \<Longrightarrow> re_exec re_http_localhost s = None"
proof -
  assume no: "\<not> includes_str s ''localhost''"
  have "\<not> prefix ''https://localhost'' s"
    using prefix_literal_drop [of 8 "''https://''" "''localhost''" s] includes_str_drop [of _ 8 s] no
    by auto
  moreover have "\<not> prefix ''http://localhost'' s"
    using prefix_literal_drop [of 7 "''http://''" "''localhost''" s] includes_str_drop [of _ 7 s] no
    by auto
  ultimately show ?thesis by (simp add: re_exec_http_localhost)
qed

lemma replace_http_localhost_id:
  "\<not> includes_str s ''localhost'' \<Longrightarrow> replace_all re_http_localhost rep s = s"
proof (induction s)
  case Nil
  then show ?case using re_exec_http_localhost_None [of "[]"] by simp
next
  case (Cons c cs)
  then show ?case using re_exec_http_localhost_None [of "c # cs"] by simp
qed

lemma replace_localhost_id:
  "\<not> includes_str s ''localhost'' \<Longrightarrow> replace_all re_localhost rep s = s"
proof (induction s)
  case Nil
  then show ?case by (simp del: replace_all.simps)
next
  case (Cons c cs)
  then show ?case by (simp add: replace_localhost_no_match del: replace_all.simps)
qed

lemma no_localhost_origin:
  "\<not> includes_str p ''localhost'' \<Longrightarrow> \<not> includes_str (''https://nola.gov'' @ p) ''localhost''"
  by simp

lemma no_localhost_origin_slash:
  "\<not> includes_str p ''localhost'' \<Longrightarrow> \<not> includes_str (''https://nola.gov/'' @ p) ''localhost''"
  by simp

lemma re_exec_port_path:
  assumes "is_port port" and "case p of [] \<Rightarrow> True | c # _ \<Rightarrow> c = CHR ''/''"
  shows "re_exec re_port (port @ p) = Some (length port)"
proof (cases port)
  case Nil
  with assms(2) show ?thesis
    by (cases p) (simp_all add: re_exec_port)
next
  case (Cons c ds)
  with assms(1) have c: "c = CHR '':''" and ds: "ds \<noteq> []" "list_all isDigit ds"
    by (simp_all add: is_port_def)
  have "takeWhile isDigit p = []"
    using assms(2) by (cases p) (simp_all add: isDigit_def)
  then have "takeWhile isDigit (ds @ p) = ds"
    using ds(2) by (simp add: takeWhile_append2 list_all_iff)
  with Cons c ds(1) show ?thesis
    by (simp add: re_exec_port)
qed

lemma replace_all_match:
  "re_exec r (c # cs) = Some (Suc n) \<Longrightarrow>
     replace_all r rep (c # cs) = rep @ replace_all r rep (drop n cs)"
  by simp

lemma replace_https_loopback:
  assumes "is_port port" and "is_path p"
  shows "replace_all re_http_localhost rep (''https://localhost'' @ port @ p) = rep @ p"
proof -
  have pp: "re_exec re_port (port @ p) = Some (length port)"
    using assms by (intro re_exec_port_path) (simp_all add: is_path_def)
  have "re_exec re_http_localhost (''https://localhost'' @ port @ p) = Some (Suc (16 + length port))"
    by (simp add: re_exec_http_localhost pp)
  then have "replace_all re_http_localhost rep (CHR ''h'' # ''ttps://localhost'' @ port @ p)
      = rep @ replace_all re_http_localhost rep (drop (16 + length port) (''ttps://localhost'' @ port @ p))"
    by (intro replace_all_match) simp
  moreover have "drop (16 + length port) (''ttps://localhost'' @ port @ p) = p"
    by (simp add: numeral_eq_Suc)
  moreover have "replace_all re_http_localhost rep p = p"
    using assms(2) by (intro replace_http_localhost_id) (simp add: is_path_def)
  ultimately show ?thesis by simp
qed

lemma replace_http_loopback:
  assumes "is_port port" and "is_path p"
  shows "replace_all re_http_localhost rep (''http://localhost'' @ port @ p) = rep @ p"
proof -
  have pp: "re_exec re_port (port @ p) = Some (length port)"
    using assms by (intro re_exec_port_path) (simp_all add: is_path_def)
  have "re_exec re_http_localhost (''http://localhost'' @ port @ p) = Some (Suc (15 + length port))"
    by (simp add: re_exec_http_localhost pp)
  then have "replace_all re_http_localhost rep (CHR ''h'' # ''ttp://localhost'' @ port @ p)
      = rep @ replace_all re_http_localhost rep (drop (15 + length port) (''ttp://localhost'' @ port @ p))"
    by (intro replace_all_match) simp
  moreover have "drop (15 + length port) (''ttp://localhost'' @ port @ p) = p"
    by (simp add: numeral_eq_Suc)
  moreover have "replace_all re_http_localhost rep p = p"
    using assms(2) by (intro replace_http_localhost_id) (simp add: is_path_def)
  ultimately show ?thesis by simp
qed
lemma fix_url_no_localhost_left:
  "includes_str u ''localhost'' \<Longrightarrow> \<not> includes_str (fix_url u) ''localhost''"
  by (simp add: fix_url_def no_localhost_replaced)

lemma fix_url_slash:
  "startsWith u ''/'' \<Longrightarrow> \<not> includes_str u ''localhost'' \<Longrightarrow> fix_url u = ''https://nola.gov'' @ u"
  by (auto simp: fix_url_def startsWith_def)

lemma fix_url_other:
  "u \<noteq> [] \<Longrightarrow> \<not> includes_str u ''localhost'' \<Longrightarrow> \<not> startsWith u ''/'' \<Longrightarrow>
     \<not> startsWith u ''http'' \<Longrightarrow> \<not> includes_str u ''nopdnews.com'' \<Longrightarrow>
     fix_url u = ''https://nola.gov/'' @ u"
  by (simp add: fix_url_def)

lemma fix_url_origin:
  "\<not> includes_str p ''localhost'' \<Longrightarrow> fix_url (''https://nola.gov'' @ p) = ''https://nola.gov'' @ p"
  using no_localhost_origin [of p] by (simp add: fix_url_def startsWith_def)

lemma fix_url_idem:
  assumes "\<not> includes_str u ''localhost''"
  shows "fix_url (fix_url u) = fix_url u"
proof -
  consider (slash) "u \<noteq> []" "startsWith u ''/''"
    | (other) "u \<noteq> []" "\<not> startsWith u ''/''" "\<not> startsWith u ''http''"
        "\<not> includes_str u ''nopdnews.com''"
    | (same) "u = [] \<or> (\<not> startsWith u ''/''
        \<and> (startsWith u ''http'' \<or> includes_str u ''nopdnews.com''))"
    by blast
  then show ?thesis
  proof cases
    case slash
    then have "fix_url u = ''https://nola.gov'' @ u"
      using assms by (simp add: fix_url_slash)
    then show ?thesis using fix_url_origin [OF assms] by simp
  next
    case other
    then have "fix_url u = ''https://nola.gov'' @ (''/'' @ u)"
      using assms by (simp add: fix_url_other)
    moreover have "\<not> includes_str (''/'' @ u) ''localhost''"
      using assms by simp
    ultimately show ?thesis using fix_url_origin [of "''/'' @ u"] by simp
  next
    case same
    then have "fix_url u = u"
      using assms by (auto simp: fix_url_def)
    then show ?thesis by simp
  qed
qed

lemma fix_url_loopback:
  assumes "scheme \<in> {''http'', ''https''}" and "is_port port" and "is_path p"
  shows "fix_url (scheme @ ''://localhost'' @ port @ p) = ''https://nola.gov'' @ p"
proof -
  let ?u = "scheme @ ''://localhost'' @ port @ p"
  have inc: "includes_str ?u ''localhost''"
    using assms(1) includes_str_drop [of "''localhost''" 7 "''http://localhost'' @ port @ p"]
      includes_str_drop [of "''localhost''" 8 "''https://localhost'' @ port @ p"]
    by auto
  have nonempty: "?u \<noteq> []"
    by simp
  have "replace_all re_http_localhost ''https://nola.gov'' ?u = ''https://nola.gov'' @ p"
    using assms replace_http_loopback [of port p] replace_https_loopback [of port p] by auto
  moreover have "replace_all re_localhost ''nola.gov'' (''https://nola.gov'' @ p)
      = ''https://nola.gov'' @ p"
    using assms(3) by (intro replace_localhost_id no_localhost_origin) (simp add: is_path_def)
  ultimately show ?thesis
    using inc nonempty unfolding fix_url_def by presburger
qed

text \<open>
  C7, as amended: a link target that contained \<open>localhost\<close> contains it no more after the
  rewriting; \<open>http://localhost\<close> or \<open>https://localhost\<close>, with or without a port,
  followed by a path with no further \<open>localhost\<close>, becomes the canonical origin
  followed by that path; a target that begins with a slash and does not contain
  \<open>localhost\<close> is prefixed with the canonical origin; any other non-empty target without
  \<open>localhost\<close> that neither begins with \<open>http\<close> nor contains \<open>nopdnews.com\<close> is
  prefixed with the origin and a slash; and the rewriting is idempotent on the targets
  without \<open>localhost\<close> and on the loopback targets above.
\<close>

theorem fix_url_rewrites:
  "(includes_str u ''localhost'' \<longrightarrow> \<not> includes_str (fix_url u) ''localhost'')
   \<and> (scheme \<in> {''http'', ''https''} \<and> is_port port \<and> is_path p \<longrightarrow>
        fix_url (scheme @ ''://localhost'' @ port @ p) = ''https://nola.gov'' @ p
        \<and> fix_url (fix_url (scheme @ ''://localhost'' @ port @ p))
            = fix_url (scheme @ ''://localhost'' @ port @ p))
   \<and> (startsWith u ''/'' \<and> \<not> includes_str u ''localhost'' \<longrightarrow>
        fix_url u = ''https://nola.gov'' @ u)
   \<and> (u \<noteq> [] \<and> \<not> includes_str u ''localhost'' \<and> \<not> startsWith u ''/''
        \<and> \<not> startsWith u ''http'' \<and> \<not> includes_str u ''nopdnews.com'' \<longrightarrow>
        fix_url u = ''https://nola.gov/'' @ u)
   \<and> (\<not> includes_str u ''localhost'' \<longrightarrow> fix_url (fix_url u) = fix_url u)"
proof -
  have loop: "fix_url (fix_url (scheme @ ''://localhost'' @ port @ p))
            = fix_url (scheme @ ''://localhost'' @ port @ p)"
    if h: "scheme \<in> {''http'', ''https''}" "is_port port" "is_path p"
  proof -
    have "\<not> includes_str p ''localhost''"
      using h(3) by (simp add: is_path_def)
    then show ?thesis
      using fix_url_loopback [OF h] fix_url_origin [of p] by simp
  qed
  show ?thesis
    using fix_url_no_localhost_left [of u] fix_url_loopback [of scheme port p] loop
      fix_url_slash [of u] fix_url_other [of u] fix_url_idem [of u]
    by blast
qed

theorem fix_url_rewrites_witness:
  "includes_str ''http://localhost:8000/next/news/'' ''localhost''
   \<and> \<not> includes_str (fix_url ''http://localhost:8000/next/news/'') ''localhost''
   \<and> fix_url (''http'' @ ''://localhost'' @ '':8000'' @ ''/next/news/'') = ''https://nola.gov'' @ ''/next/news/''
   \<and> startsWith ''/next/news/story'' ''/''
   \<and> fix_url ''/next/news/story'' = ''https://nola.gov'' @ ''/next/news/story''
   \<and> fix_url ''news/story'' = ''https://nola.gov/'' @ ''news/story''
   \<and> fix_url (fix_url ''/next/news/story'') = fix_url ''/next/news/story''"
proof -
  have a: "includes_str ''http://localhost:8000/next/news/'' ''localhost''"
    by code_simp
  have b: "''http'' \<in> {''http'', ''https''} \<and> is_port '':8000'' \<and> is_path ''/next/news/''"
    by code_simp
  have c: "startsWith ''/next/news/story'' ''/'' \<and> \<not> includes_str ''/next/news/story'' ''localhost''"
    by code_simp
  have d: "''news/story'' \<noteq> [] \<and> \<not> includes_str ''news/story'' ''localhost''
      \<and> \<not> startsWith ''news/story'' ''/'' \<and> \<not> startsWith ''news/story'' ''http''
      \<and> \<not> includes_str ''news/story'' ''nopdnews.com''"
    by code_simp
  show ?thesis
    using a b c d
      fix_url_rewrites [of "''http://localhost:8000/next/news/''" "''http''" "'':8000''" "''/next/news/''"]
      fix_url_rewrites [of "''/next/news/story''" "''http''" "'':8000''" "''/next/news/''"]
      fix_url_rewrites [of "''news/story''" "''http''" "'':8000''" "''/next/news/''"]
    by blast
qed

theorem fix_url_counterexample:
  "startsWith ''/localhost/x'' ''/''
   \<and> includes_str ''/localhost/x'' ''localhost''
   \<and> fix_url ''/localhost/x'' = ''/nola.gov/x''
   \<and> fix_url ''/localhost/x'' \<noteq> ''https://nola.gov'' @ ''/localhost/x''
   \<and> fix_url (fix_url ''/localhost/x'') = ''https://nola.gov/nola.gov/x''
   \<and> fix_url (fix_url ''/localhost/x'') \<noteq> fix_url ''/localhost/x''"
  by code_simp

subsection \<open>Extraction\<close>

lemma estimate_timestamp_no_fallback:
  "estimate_timestamp dateParse now index d = (if d \<noteq> [] then dateParse d else Some now)"
  by (simp add: estimate_timestamp_def Date_getTime_def)

lemma parse_link_timestamp:
  "parse_link dateParse now index e = Some r \<Longrightarrow>
     timestamp r = estimate_timestamp dateParse now index (extract_date (container_text e))"
  by (auto simp: parse_link_def Let_def split: if_splits)

lemma parse_link_id:
  "parse_link dateParse now index e = Some r \<Longrightarrow>
     item_id r = make_id (fix_url (select_url e)) index"
  by (auto simp: parse_link_def Let_def split: if_splits)

lemma example_records:
  "parseNewsFromHTML (select_links example_api) (parse_date example_api)
        (now_at example_api) example_html =
     [\<lparr>item_id = ''x'', title = ''Council'', url = ''https://nola.gov/a/x'', date = ''Recent'',
       source = ''City of New Orleans'', excerpt = ''No description available'',
       timestamp = Some 1754600000000\<rparr>,
      \<lparr>item_id = ''x'', title = ''Streets'', url = ''https://nola.gov/b/x'', date = ''Recent'',
       source = ''City of New Orleans'', excerpt = ''No description available'',
       timestamp = Some 1754600000000\<rparr>,
      \<lparr>item_id = ''item-2'', title = ''Parade'', url = ''https://nola.gov/n/'',
       date = ''May 45, 2025'', source = ''City of New Orleans'',
       excerpt = ''No description available'', timestamp = None\<rparr>]"
  by code_simp

text \<open>
  C5: on the example page, read when the clock shows 1754600000000, the record at
  index 1 has no date and gets the clock reading itself as its timestamp, not the
  reading minus one hour; the record at index 2 has a date that does not parse and
  gets \<open>NaN\<close>, not the reading minus two hours. \<open>new Date(date).getTime()\<close> does not
  throw, so the fallback of the \<open>catch\<close> block is never taken.
\<close>

theorem timestamp_fallback_not_taken:
  "map timestamp
     (parseNewsFromHTML (select_links example_api) (parse_date example_api)
        (now_at example_api) example_html)
     = [Some 1754600000000, Some 1754600000000, None]
   \<and> map date
     (parseNewsFromHTML (select_links example_api) (parse_date example_api)
        (now_at example_api) example_html)
     = [''Recent'', ''Recent'', ''May 45, 2025'']
   \<and> now_at example_api 1 - 1 * 3600000 = 1754596400000
   \<and> now_at example_api 2 - 2 * 3600000 = 1754592800000"
proof -
  have "now_at example_api 1 - 1 * 3600000 = 1754596400000"
    "now_at example_api 2 - 2 * 3600000 = 1754592800000"
    by (simp_all add: example_api_def)
  then show ?thesis
    by (simp add: example_records)
qed

text \<open>
  C6: on the example page the first two records get the same id, the last segment
  \<open>x\<close> of their targets; the third target ends in a slash and gets the positional id.
\<close>

theorem ids_not_distinct:
  "map item_id
     (parseNewsFromHTML (select_links example_api) (parse_date example_api)
        (now_at example_api) example_html)
     = [''x'', ''x'', ''item-2'']
   \<and> map url
     (parseNewsFromHTML (select_links example_api) (parse_date example_api)
        (now_at example_api) example_html)
     = [''https://nola.gov/a/x'', ''https://nola.gov/b/x'', ''https://nola.gov/n/'']
   \<and> \<not> distinct (map item_id
     (parseNewsFromHTML (select_links example_api) (parse_date example_api)
        (now_at example_api) example_html))"
  by (simp add: example_records)

end
